theory Spec2Isabelle
  imports Main "HOL-Library.Word" "HOL-Library.Log_Nat"
begin

section \<open>Data model of package expression\<close>

text \<open>
  The Go file \<^verbatim>\<open>expression/expression.go\<close> is embedded function by function.
  Go functions that return a value together with an \<^verbatim>\<open>error\<close> are modelled as
  functions returning a pair whose second component is an \<open>error option\<close>
  (\<open>None\<close> is Go's \<^verbatim>\<open>nil\<close> error), because the source reads both components.
\<close>

datatype error =
    ErrInvalidOperation
  | ErrIncorrectParameterCount string
  | ErrFunctionNotExists string
  | ErrExternal string
  | PanicNilDereference

text \<open>
  \<^verbatim>\<open>errors.Trace\<close> (juju/errors) annotates a non-nil error with the call site and
  maps \<^verbatim>\<open>nil\<close> to \<^verbatim>\<open>nil\<close>. The model identifies an error with its cause.
\<close>

definition Trace :: "error option \<Rightarrow> error option" where
  "Trace err = err"

type_synonym int64 = "64 word"

text \<open>A \<^verbatim>\<open>float64\<close> is carried as its 64-bit pattern; no arithmetic is done on it here.\<close>

type_synonym float64 = "64 word"

text \<open>
  \<^verbatim>\<open>model.CIStr\<close>: a case-insensitive string, the original text \<^verbatim>\<open>O\<close> and its
  lower-case form \<^verbatim>\<open>L\<close>.
\<close>

record CIStr =
  CIStr_O :: string
  CIStr_L :: string

definition lower_char :: "char \<Rightarrow> char" where
  "lower_char c =
     (if 65 \<le> (of_char c :: nat) \<and> (of_char c :: nat) \<le> 90
      then (case c of Char b0 b1 b2 b3 b4 b5 b6 b7 \<Rightarrow> Char b0 b1 b2 b3 b4 True b6 b7)
      else c)"

definition ToLower :: "string \<Rightarrow> string" where
  "ToLower s = map lower_char s"

text \<open>
  Modelled from the spec: \<^verbatim>\<open>model.NewCIStr\<close> is not in the source file; a function
  name is inspected through its lower-case form, which \<^verbatim>\<open>NewCIStr\<close> computes
  (here for the ASCII letters).
\<close>

definition NewCIStr :: "string \<Rightarrow> CIStr" where
  "NewCIStr s = \<lparr>CIStr_O = s, CIStr_L = ToLower s\<rparr>"

text \<open>
  Modelled from the spec: packages \<^verbatim>\<open>types\<close> and \<^verbatim>\<open>mysql\<close> are not in the source
  file. \<^verbatim>\<open>types.FieldType\<close> is the declared SQL type, of which the file reads the
  type code \<^verbatim>\<open>Tp\<close> and the column flags \<^verbatim>\<open>Flag\<close> (a Go \<^verbatim>\<open>uint\<close>). The type
  codes (the smallest integer kind \<^verbatim>\<open>TypeTiny\<close>, the null type \<^verbatim>\<open>TypeNull\<close>) and the
  flag bits (NOT NULL, primary key) have the values of the MySQL protocol;
  \<^verbatim>\<open>NewFieldType\<close> sets the type code only, and the two flag tests mask one bit.
\<close>

record FieldType =
  Tp :: "8 word"
  Flag :: "64 word"

definition TypeTiny :: "8 word" where "TypeTiny = 1"
definition TypeLonglong :: "8 word" where "TypeLonglong = 8"
definition TypeNull :: "8 word" where "TypeNull = 6"
definition TypeVarchar :: "8 word" where "TypeVarchar = 15"

definition NotNullFlag :: "64 word" where "NotNullFlag = 1"
definition PriKeyFlag :: "64 word" where "PriKeyFlag = 2"

definition NewFieldType :: "8 word \<Rightarrow> FieldType" where
  "NewFieldType tp = \<lparr>Tp = tp, Flag = 0\<rparr>"

unbundle bit_operations_syntax

definition HasNotNullFlag :: "64 word \<Rightarrow> bool" where
  "HasNotNullFlag flag = ((flag AND NotNullFlag) > 0)"

definition HasPriKeyFlag :: "64 word \<Rightarrow> bool" where
  "HasPriKeyFlag flag = ((flag AND PriKeyFlag) > 0)"

text \<open>
  A \<^verbatim>\<open>Column\<close> as \<^verbatim>\<open>ColumnInfos2Columns\<close> fills it in. The pointer
  \<^verbatim>\<open>&col.FieldType\<close> is modelled by the value it points to.
\<close>

record Column =
  ColName :: CIStr
  TblName :: CIStr
  RetType :: FieldType
  Position :: int

text \<open>
  A value of the Go interface \<^verbatim>\<open>Expression\<close>: \<^verbatim>\<open>nil\<close>, or one of the three
  variants. The datum type \<open>'d\<close> stands for \<^verbatim>\<open>types.Datum\<close>. A
  \<^verbatim>\<open>ScalarFunction\<close> is given by its name, its declared return type and its
  ordered arguments (what \<^verbatim>\<open>GetArgs\<close> returns); the opaque evaluator is
  determined by the name.
\<close>

datatype 'd Expression =
    NilExpr
  | Constant 'd FieldType
  | Column Column
  | ScalarFunction CIStr FieldType "'d Expression list"

text \<open>
  \<^verbatim>\<open>GetType\<close> returns the declared type of each variant. On \<^verbatim>\<open>nil\<close> the call
  panics in Go; the functions below test for \<^verbatim>\<open>nil\<close> before they ask for the type,
  and the last equation only keeps the function total.
\<close>

fun GetType :: "'d Expression \<Rightarrow> FieldType" where
  "GetType (Constant v t) = t"
| "GetType (Column c) = RetType c"
| "GetType (ScalarFunction fn t args) = t"
| "GetType NilExpr = NewFieldType 0"

section \<open>Building function applications\<close>

text \<open>
  Modelled from the spec: \<^verbatim>\<open>NewFunction\<close> is not in the source file. It is the
  function-construction entry point taking (context, function name, declared return
  type, argument expressions) and returning a \<^verbatim>\<open>ScalarFunction\<close> or an error; the
  construction errors are an unknown function name and a wrong argument count. The
  registry \<open>funcs\<close> maps each known function name to the least and greatest number
  of arguments it accepts. On an error the returned expression is \<^verbatim>\<open>nil\<close>.
\<close>

type_synonym registry = "string \<Rightarrow> (nat \<times> nat) option"

definition NewFunction ::
  "registry \<Rightarrow> 'c \<Rightarrow> string \<Rightarrow> FieldType \<Rightarrow> 'd Expression list
     \<Rightarrow> 'd Expression \<times> error option" where
  "NewFunction funcs ctx funcName retType args =
     (case funcs funcName of
        None \<Rightarrow> (NilExpr, Some (ErrFunctionNotExists funcName))
      | Some (minArgs, maxArgs) \<Rightarrow>
          if length args < minArgs \<or> maxArgs < length args
          then (NilExpr, Some (ErrIncorrectParameterCount funcName))
          else (ScalarFunction (NewCIStr funcName) retType args, None))"

text \<open>
  Modelled from the spec: the boolean-operator identifiers \<^verbatim>\<open>ast.AndAnd\<close> (AND, for
  CNF) and \<^verbatim>\<open>ast.OrOr\<close> (OR, for DNF) are declared in package \<^verbatim>\<open>ast\<close>, not in the
  source file; they are the lower-case function names.
\<close>

definition AndAnd :: string where "AndAnd = ''and''"
definition OrOr :: string where "OrOr = ''or''"

section \<open>Normal-form composer and splitter\<close>

function composeConditionWithBinaryOp ::
  "registry \<Rightarrow> 'c \<Rightarrow> 'd Expression list \<Rightarrow> string \<Rightarrow> 'd Expression" where
  "composeConditionWithBinaryOp funcs ctx conditions funcName =
     (if length conditions = 0 then NilExpr
      else if length conditions = 1 then conditions ! 0
      else fst (NewFunction funcs ctx funcName (NewFieldType TypeTiny)
             [composeConditionWithBinaryOp funcs ctx
                (take (length conditions div 2) conditions) funcName,
              composeConditionWithBinaryOp funcs ctx
                (drop (length conditions div 2) conditions) funcName]))"
  by pat_completeness auto
termination
proof (relation "measure (\<lambda>(funcs, ctx, conditions, funcName). length conditions)")
  fix conditions :: "'d Expression list"
  assume "length conditions \<noteq> 0" "length conditions \<noteq> 1"
  then have "2 \<le> length conditions" by linarith
  then have "length conditions div 2 < length conditions" "0 < length conditions div 2"
    by simp_all
  then show "\<And>funcs ctx funcName. ((funcs :: registry, ctx :: 'c,
        take (length conditions div 2) conditions, funcName :: string),
        funcs, ctx, conditions, funcName)
      \<in> measure (\<lambda>(funcs, ctx, conditions, funcName). length conditions)"
    and "\<And>funcs ctx funcName. ((funcs :: registry, ctx :: 'c,
        drop (length conditions div 2) conditions, funcName :: string),
        funcs, ctx, conditions, funcName)
      \<in> measure (\<lambda>(funcs, ctx, conditions, funcName). length conditions)"
    by simp_all
qed simp

declare composeConditionWithBinaryOp.simps [simp del]

definition ComposeCNFCondition :: "registry \<Rightarrow> 'c \<Rightarrow> 'd Expression list \<Rightarrow> 'd Expression" where
  "ComposeCNFCondition funcs ctx conditions =
     composeConditionWithBinaryOp funcs ctx conditions AndAnd"

definition ComposeDNFCondition :: "registry \<Rightarrow> 'c \<Rightarrow> 'd Expression list \<Rightarrow> 'd Expression" where
  "ComposeDNFCondition funcs ctx conditions =
     composeConditionWithBinaryOp funcs ctx conditions OrOr"

fun splitNormalFormItems :: "'d Expression \<Rightarrow> string \<Rightarrow> 'd Expression list" where
  "splitNormalFormItems (ScalarFunction fn t args) funcName =
     (if CIStr_L fn = funcName
      then concat (map (\<lambda>arg. splitNormalFormItems arg funcName) args)
      else [ScalarFunction fn t args])"
| "splitNormalFormItems onExpr funcName = [onExpr]"

definition SplitCNFItems :: "'d Expression \<Rightarrow> 'd Expression list" where
  "SplitCNFItems onExpr = splitNormalFormItems onExpr AndAnd"

definition SplitDNFItems :: "'d Expression \<Rightarrow> 'd Expression list" where
  "SplitDNFItems onExpr = splitNormalFormItems onExpr OrOr"

text \<open>
  What the composer and the splitter are measured by: whether the registry accepts a
  call of \<open>funcName\<close> with \<open>n\<close> arguments, whether an expression is a leaf for an
  operator (not a \<^verbatim>\<open>ScalarFunction\<close> application of it), and the depth of a tree in
  function applications.
\<close>

definition accepts :: "registry \<Rightarrow> string \<Rightarrow> nat \<Rightarrow> bool" where
  "accepts funcs funcName n =
     (case funcs funcName of
        None \<Rightarrow> False
      | Some (minArgs, maxArgs) \<Rightarrow> minArgs \<le> n \<and> n \<le> maxArgs)"

fun isLeaf :: "string \<Rightarrow> 'd Expression \<Rightarrow> bool" where
  "isLeaf funcName (ScalarFunction fn t args) = (CIStr_L fn \<noteq> funcName)"
| "isLeaf funcName e = True"

fun depth :: "'d Expression \<Rightarrow> nat" where
  "depth (ScalarFunction fn t args) = Suc (fold max (map depth args) 0)"
| "depth e = 0"

text \<open>A registry that knows the two boolean operators, and one that knows nothing.\<close>

definition logicFuncs :: registry where
  "logicFuncs name = (if name = ''and'' \<or> name = ''or'' then Some (2, 2) else None)"

definition noFuncs :: registry where
  "noFuncs name = None"

section \<open>Typed evaluation\<close>

text \<open>
  The scalar-value library (\<^verbatim>\<open>types.Datum\<close>, \<^verbatim>\<open>types.FieldType.ToClass\<close>) is
  consumed, not reimplemented: its operations are a parameter. \<open>'sc\<close> is the
  statement context, \<open>'dec\<close> a \<^verbatim>\<open>MyDecimal\<close> (the pointer \<^verbatim>\<open>*MyDecimal\<close> is an
  option). \<open>ZeroDatum\<close> is the zero value \<^verbatim>\<open>types.Datum{}\<close>.
\<close>

datatype TypeClass = ClassString | ClassReal | ClassDecimal | ClassInt

record ('d, 'sc, 'dec) DatumOps =
  ZeroDatum :: "'d"
  IsNull :: "'d \<Rightarrow> bool"
  GetInt64 :: "'d \<Rightarrow> int64"
  ToInt64 :: "'d \<Rightarrow> 'sc \<Rightarrow> int64 \<times> error option"
  GetFloat64 :: "'d \<Rightarrow> float64"
  ToFloat64 :: "'d \<Rightarrow> 'sc \<Rightarrow> float64 \<times> error option"
  GetString :: "'d \<Rightarrow> string"
  ToString :: "'d \<Rightarrow> string \<times> error option"
  GetMysqlDecimal :: "'d \<Rightarrow> 'dec option"
  ToDecimal :: "'d \<Rightarrow> 'sc \<Rightarrow> 'dec option \<times> error option"
  ToBool :: "'d \<Rightarrow> 'sc \<Rightarrow> int64 \<times> error option"
  CompareDatum :: "'d \<Rightarrow> 'sc \<Rightarrow> 'd \<Rightarrow> int \<times> error option"
  ToClass :: "FieldType \<Rightarrow> TypeClass"

text \<open>
  \<^verbatim>\<open>Column.Eval\<close> and \<^verbatim>\<open>ScalarFunction.Eval\<close> live in other files of the package
  and in the builtin function library; they are a parameter as well.
\<close>

record 'd Evaluators =
  ColumnEval :: "Column \<Rightarrow> 'd list \<Rightarrow> 'd \<times> error option"
  FunctionEval :: "CIStr \<Rightarrow> FieldType \<Rightarrow> 'd Expression list \<Rightarrow> 'd list \<Rightarrow> 'd \<times> error option"

text \<open>
  \<^verbatim>\<open>Eval\<close> through the interface. \<^verbatim>\<open>Constant.Eval\<close> returns the value and no
  error. A method call on the \<^verbatim>\<open>nil\<close> interface panics; the panic is the error
  \<open>PanicNilDereference\<close>.
\<close>

fun Eval ::
  "('d, 'sc, 'dec) DatumOps \<Rightarrow> 'd Evaluators \<Rightarrow> 'd Expression \<Rightarrow> 'd list \<Rightarrow> 'd \<times> error option" where
  "Eval T X (Constant v t) row = (v, None)"
| "Eval T X (Column c) row = ColumnEval X c row"
| "Eval T X (ScalarFunction fn t args) row = FunctionEval X fn t args row"
| "Eval T X NilExpr row = (ZeroDatum T, Some PanicNilDereference)"

definition EvalInt ::
  "('d, 'sc, 'dec) DatumOps \<Rightarrow> 'd Evaluators \<Rightarrow> 'd Expression \<Rightarrow> 'd list \<Rightarrow> 'sc
     \<Rightarrow> int64 \<times> bool \<times> error option" where
  "EvalInt T X self row sc =
     (if self = NilExpr then (0, False, Some PanicNilDereference)
      else if Tp (GetType self) = TypeNull then (0, True, None)
      else (case Eval T X self row of (val, err) \<Rightarrow>
        if err \<noteq> None \<or> IsNull T val then (0, IsNull T val, Trace err)
        else (case ToClass T (GetType self) of
                ClassInt \<Rightarrow> (GetInt64 T val, False, None)
              | _ \<Rightarrow> (case ToInt64 T val sc of (res, err) \<Rightarrow> (res, False, Trace err)))))"

definition EvalReal ::
  "('d, 'sc, 'dec) DatumOps \<Rightarrow> 'd Evaluators \<Rightarrow> 'd Expression \<Rightarrow> 'd list \<Rightarrow> 'sc
     \<Rightarrow> float64 \<times> bool \<times> error option" where
  "EvalReal T X self row sc =
     (if self = NilExpr then (0, False, Some PanicNilDereference)
      else if Tp (GetType self) = TypeNull then (0, True, None)
      else (case Eval T X self row of (val, err) \<Rightarrow>
        if err \<noteq> None \<or> IsNull T val then (0, IsNull T val, Trace err)
        else (case ToClass T (GetType self) of
                ClassReal \<Rightarrow> (GetFloat64 T val, False, None)
              | _ \<Rightarrow> (case ToFloat64 T val sc of (res, err) \<Rightarrow> (res, False, Trace err)))))"

definition EvalString ::
  "('d, 'sc, 'dec) DatumOps \<Rightarrow> 'd Evaluators \<Rightarrow> 'd Expression \<Rightarrow> 'd list \<Rightarrow> 'sc
     \<Rightarrow> string \<times> bool \<times> error option" where
  "EvalString T X self row sc =
     (if self = NilExpr then ('''', False, Some PanicNilDereference)
      else if Tp (GetType self) = TypeNull then ('''', True, None)
      else (case Eval T X self row of (val, err) \<Rightarrow>
        if err \<noteq> None \<or> IsNull T val then ('''', IsNull T val, Trace err)
        else (case ToString T val of (res, err) \<Rightarrow> (res, False, Trace err))))"

definition EvalDecimal ::
  "('d, 'sc, 'dec) DatumOps \<Rightarrow> 'd Evaluators \<Rightarrow> 'd Expression \<Rightarrow> 'd list \<Rightarrow> 'sc
     \<Rightarrow> 'dec option \<times> bool \<times> error option" where
  "EvalDecimal T X self row sc =
     (if self = NilExpr then (None, False, Some PanicNilDereference)
      else if Tp (GetType self) = TypeNull then (None, True, None)
      else (case Eval T X self row of (val, err) \<Rightarrow>
        if err \<noteq> None \<or> IsNull T val then (None, IsNull T val, Trace err)
        else (case ToClass T (GetType self) of
                ClassDecimal \<Rightarrow> (GetMysqlDecimal T val, False, None)
              | _ \<Rightarrow> (case ToDecimal T val sc of (res, err) \<Rightarrow> (res, False, Trace err)))))"

text \<open>The context, as far as the file reads it: \<^verbatim>\<open>ctx.GetSessionVars().StmtCtx\<close>.\<close>

record 'sc Context =
  StmtCtx :: "'sc"

fun EvalBool ::
  "('d, 'sc, 'dec) DatumOps \<Rightarrow> 'd Evaluators \<Rightarrow> 'd Expression list \<Rightarrow> 'd list \<Rightarrow> 'sc Context
     \<Rightarrow> bool \<times> error option" where
  "EvalBool T X [] row ctx = (True, None)"
| "EvalBool T X (expr # exprList) row ctx =
     (case Eval T X expr row of (data, err) \<Rightarrow>
        if err \<noteq> None then (False, Trace err)
        else if IsNull T data then (False, None)
        else (case ToBool T data (StmtCtx ctx) of (i, err) \<Rightarrow>
          if err \<noteq> None then (False, Trace err)
          else if i = 0 then (False, None)
          else EvalBool T X exprList row ctx))"

text \<open>
  \<^verbatim>\<open>Constant.Equal\<close>: the receiver is a \<^verbatim>\<open>Constant\<close>, given by its value and its
  declared type.
\<close>

fun Constant_Equal ::
  "('d, 'sc, 'dec) DatumOps \<Rightarrow> 'd \<times> FieldType \<Rightarrow> 'd Expression \<Rightarrow> 'sc Context \<Rightarrow> bool" where
  "Constant_Equal T (cValue, cRetType) (Constant yValue yRetType) ctx =
     (case CompareDatum T cValue (StmtCtx ctx) yValue of (con, err) \<Rightarrow>
        if err \<noteq> None \<or> con \<noteq> 0 then False else True)"
| "Constant_Equal T c b ctx = False"

text \<open>What a test of \<open>EvalBool\<close> says about one expression of the list.\<close>

datatype verdict = Passes | Stops | Fails error

definition verdictOf ::
  "('d, 'sc, 'dec) DatumOps \<Rightarrow> 'd Evaluators \<Rightarrow> 'd list \<Rightarrow> 'sc Context \<Rightarrow> 'd Expression \<Rightarrow> verdict" where
  "verdictOf T X row ctx expr =
     (case snd (Eval T X expr row) of
        Some e \<Rightarrow> Fails e
      | None \<Rightarrow>
          if IsNull T (fst (Eval T X expr row)) then Stops
          else (case snd (ToBool T (fst (Eval T X expr row)) (StmtCtx ctx)) of
                  Some e \<Rightarrow> Fails e
                | None \<Rightarrow>
                    if fst (ToBool T (fst (Eval T X expr row)) (StmtCtx ctx)) = 0
                    then Stops else Passes))"

section \<open>Schema and unique keys\<close>

type_synonym KeyInfo = "Column list"

record Schema =
  Columns :: "Column list"
  UniqueKeys :: "KeyInfo list"


text \<open>The table metadata of package \<^verbatim>\<open>model\<close>, with the fields the file reads.\<close>

datatype SchemaState =
    StateNone
  | StateDeleteOnly
  | StateWriteOnly
  | StateWriteReorganization
  | StateDeleteReorganization
  | StatePublic

record ColumnInfo =
  Name :: CIStr
  FieldType :: FieldType

record IndexColumn =
  Name :: CIStr

record IndexInfo =
  Columns :: "IndexColumn list"
  Unique :: bool
  State :: SchemaState

record TableInfo =
  Name :: CIStr
  Columns :: "ColumnInfo list"
  Indices :: "IndexInfo list"
  PKIsHandle :: bool

text \<open>The struct literal \<^verbatim>\<open>&Column{...}\<close> of \<^verbatim>\<open>ColumnInfos2Columns\<close>.\<close>

definition newCol :: "CIStr \<Rightarrow> nat \<Rightarrow> ColumnInfo \<Rightarrow> Column" where
  "newCol tblName i col =
     \<lparr>ColName = ColumnInfo.Name col, TblName = tblName, RetType = FieldType col, Position = int i\<rparr>"

definition ColumnInfos2Columns :: "CIStr \<Rightarrow> ColumnInfo list \<Rightarrow> Column list" where
  "ColumnInfos2Columns tblName colInfos =
     map (\<lambda>(i, col). newCol tblName i col) (enumerate 0 colInfos)"

text \<open>
  The innermost loop of \<^verbatim>\<open>TableInfo2Schema\<close>: scan the table columns from index
  \<open>i\<close> for the name of the index column. The first column of that name ends the
  scan: a nullable one leaves \<^verbatim>\<open>find\<close> false (\<open>None\<close>), any other is the key
  column \<^verbatim>\<open>cols[i]\<close>. The slice \<^verbatim>\<open>cols\<close> is as long as the table's column
  list, so the index is in range; the test on the length only keeps the read defined.
\<close>

fun findKeyColumn :: "Column list \<Rightarrow> IndexColumn \<Rightarrow> ColumnInfo list \<Rightarrow> nat \<Rightarrow> Column option" where
  "findKeyColumn cols idxCol [] i = None"
| "findKeyColumn cols idxCol (col # rest) i =
     (if CIStr_L (IndexColumn.Name idxCol) = CIStr_L (ColumnInfo.Name col)
      then (if \<not> HasNotNullFlag (Flag (FieldType col)) then None
            else if i < length cols then Some (cols ! i) else None)
      else findKeyColumn cols idxCol rest (Suc i))"

text \<open>
  The loop over the columns of one index: \<^verbatim>\<open>newKey\<close> grows until a column is not
  found, which clears \<^verbatim>\<open>ok\<close> and leaves the loop.
\<close>

fun buildKey ::
  "Column list \<Rightarrow> ColumnInfo list \<Rightarrow> IndexColumn list \<Rightarrow> Column list \<Rightarrow> bool \<times> Column list" where
  "buildKey cols tblCols [] newKey = (True, newKey)"
| "buildKey cols tblCols (idxCol # rest) newKey =
     (case findKeyColumn cols idxCol tblCols 0 of
        None \<Rightarrow> (False, newKey)
      | Some c \<Rightarrow> buildKey cols tblCols rest (newKey @ [c]))"

fun indexKeys ::
  "Column list \<Rightarrow> ColumnInfo list \<Rightarrow> IndexInfo list \<Rightarrow> KeyInfo list \<Rightarrow> KeyInfo list" where
  "indexKeys cols tblCols [] keys = keys"
| "indexKeys cols tblCols (idx # rest) keys =
     (if \<not> Unique idx \<or> State idx \<noteq> StatePublic then indexKeys cols tblCols rest keys
      else (case buildKey cols tblCols (IndexInfo.Columns idx) [] of
              (ok, newKey) \<Rightarrow>
                if ok then indexKeys cols tblCols rest (keys @ [newKey])
                else indexKeys cols tblCols rest keys))"

fun handleKey :: "Column list \<Rightarrow> ColumnInfo list \<Rightarrow> nat \<Rightarrow> KeyInfo list \<Rightarrow> KeyInfo list" where
  "handleKey cols [] i keys = keys"
| "handleKey cols (col # rest) i keys =
     (if HasPriKeyFlag (Flag (FieldType col))
      then (if i < length cols then keys @ [[cols ! i]] else keys)
      else handleKey cols rest (Suc i) keys)"

definition TableInfo2Schema :: "TableInfo \<Rightarrow> Schema" where
  "TableInfo2Schema tbl =
     (let cols = ColumnInfos2Columns (TableInfo.Name tbl) (TableInfo.Columns tbl);
          keys = indexKeys cols (TableInfo.Columns tbl) (Indices tbl) [];
          keys = (if PKIsHandle tbl then handleKey cols (TableInfo.Columns tbl) 0 keys else keys)
      in \<lparr>Schema.Columns = cols, UniqueKeys = keys\<rparr>)"

text \<open>
  The same derivation in the words of the specification. An index column resolves to
  the first table column, in declaration order, with the same lower-case name; an
  index is a key candidate when it is unique and public, every one of its columns
  resolves and every resolved column is NOT NULL; its key is the list of the resolved
  columns. The handle key is the first column that carries the primary-key flag.
\<close>

definition resolve :: "TableInfo \<Rightarrow> IndexColumn \<Rightarrow> (nat \<times> ColumnInfo) option" where
  "resolve tbl idxCol =
     List.find (\<lambda>(i, col). CIStr_L (IndexColumn.Name idxCol) = CIStr_L (ColumnInfo.Name col))
       (enumerate 0 (TableInfo.Columns tbl))"

definition isKeyIndex :: "TableInfo \<Rightarrow> IndexInfo \<Rightarrow> bool" where
  "isKeyIndex tbl idx =
     (Unique idx \<and> State idx = StatePublic \<and>
      (\<forall>idxCol \<in> set (IndexInfo.Columns idx).
         case resolve tbl idxCol of
           None \<Rightarrow> False
         | Some (i, col) \<Rightarrow> HasNotNullFlag (Flag (FieldType col))))"

definition keyOfIndex :: "TableInfo \<Rightarrow> IndexInfo \<Rightarrow> KeyInfo" where
  "keyOfIndex tbl idx =
     List.map_filter
       (\<lambda>idxCol. map_option (\<lambda>(i, col). newCol (TableInfo.Name tbl) i col) (resolve tbl idxCol))
       (IndexInfo.Columns idx)"

definition handleKeys :: "TableInfo \<Rightarrow> KeyInfo list" where
  "handleKeys tbl =
     (if PKIsHandle tbl
      then (case List.find (\<lambda>(i, col). HasPriKeyFlag (Flag (FieldType col)))
                   (enumerate 0 (TableInfo.Columns tbl)) of
              None \<Rightarrow> []
            | Some (i, col) \<Rightarrow> [[newCol (TableInfo.Name tbl) i col]])
      else [])"

text \<open>
  What the innermost loop yields for an index column: the key column, or nothing when
  the name does not resolve or resolves to a nullable column.
\<close>

definition keyColumnOf :: "TableInfo \<Rightarrow> IndexColumn \<Rightarrow> Column option" where
  "keyColumnOf tbl idxCol =
     (case resolve tbl idxCol of
        None \<Rightarrow> None
      | Some (i, col) \<Rightarrow>
          if HasNotNullFlag (Flag (FieldType col)) then Some (newCol (TableInfo.Name tbl) i col)
          else None)"

section \<open>Null-substitution folder\<close>










section \<open>Example values\<close>

definition ci :: "string \<Rightarrow> CIStr" where
  "ci s = \<lparr>CIStr_O = s, CIStr_L = s\<rparr>"

definition exCol :: "string \<Rightarrow> nat \<Rightarrow> Column" where
  "exCol name i =
     \<lparr>ColName = ci name, TblName = ci ''t'', RetType = NewFieldType TypeLonglong, Position = int i\<rparr>"

text \<open>
  A small scalar-value library for the examples: integers, strings, and hexadecimal
  literals, whose string form is not stored as a string (the direct string accessor
  reads an empty value from them).
\<close>

datatype exDatum = ExNull | ExInt int | ExString string | ExHex int

definition exOps :: "(exDatum, unit, int) DatumOps" where
  "exOps =
     \<lparr>ZeroDatum = ExNull,
      IsNull = (\<lambda>d. d = ExNull),
      GetInt64 = (\<lambda>d. case d of ExInt i \<Rightarrow> word_of_int i | ExHex i \<Rightarrow> word_of_int i | _ \<Rightarrow> 0),
      ToInt64 = (\<lambda>d sc. case d of ExInt i \<Rightarrow> (word_of_int i, None)
                                | ExHex i \<Rightarrow> (word_of_int i, None)
                                | _ \<Rightarrow> (0, Some (ErrExternal ''bad number''))),
      GetFloat64 = (\<lambda>d. 0),
      ToFloat64 = (\<lambda>d sc. (0, Some (ErrExternal ''no reals''))),
      GetString = (\<lambda>d. case d of ExString s \<Rightarrow> s | _ \<Rightarrow> ''''),
      ToString = (\<lambda>d. case d of ExString s \<Rightarrow> (s, None)
                              | ExHex i \<Rightarrow> (if i = 255 then ''0xFF'' else ''0x'', None)
                              | ExInt i \<Rightarrow> (if i = 0 then ''0'' else ''1'', None)
                              | ExNull \<Rightarrow> ('''', Some (ErrExternal ''null''))),
      GetMysqlDecimal = (\<lambda>d. case d of ExInt i \<Rightarrow> Some i | _ \<Rightarrow> None),
      ToDecimal = (\<lambda>d sc. case d of ExInt i \<Rightarrow> (Some i, None) | ExHex i \<Rightarrow> (Some i, None)
                                  | _ \<Rightarrow> (None, Some (ErrExternal ''bad number''))),
      ToBool = (\<lambda>d sc. case d of ExInt i \<Rightarrow> (if i = 0 then 0 else 1, None)
                               | ExHex i \<Rightarrow> (if i = 0 then 0 else 1, None)
                               | _ \<Rightarrow> (0, Some (ErrExternal ''bad number''))),
      CompareDatum = (\<lambda>a sc b. case (a, b) of
                         (ExInt i, ExInt j) \<Rightarrow> (if i < j then - 1 else if i = j then 0 else 1, None)
                       | (ExString s, ExString t) \<Rightarrow> (if s = t then 0 else 1, None)
                       | _ \<Rightarrow> (0, Some (ErrExternal ''not comparable''))),
      ToClass = (\<lambda>ft. if Tp ft = TypeVarchar then ClassString else ClassInt)\<rparr>"

definition exEval :: "exDatum Evaluators" where
  "exEval =
     \<lparr>ColumnEval = (\<lambda>c row. if 0 \<le> Position c \<and> nat (Position c) < length row
                               then (row ! nat (Position c), None)
                               else (ExNull, Some (ErrExternal ''no such column''))),
      FunctionEval = (\<lambda>fn t args row. (ExNull, Some ErrInvalidOperation))\<rparr>"

definition exCtx :: "unit Context" where
  "exCtx = \<lparr>StmtCtx = ()\<rparr>"

definition exInt :: "int \<Rightarrow> exDatum Expression" where
  "exInt i = Constant (ExInt i) (NewFieldType TypeLonglong)"

definition exStr :: "string \<Rightarrow> exDatum Expression" where
  "exStr s = Constant (ExString s) (NewFieldType TypeVarchar)"

definition exHexFF :: "exDatum Expression" where
  "exHexFF = Constant (ExHex 255) (NewFieldType TypeVarchar)"

definition exNullConst :: "exDatum Expression" where
  "exNullConst = Constant ExNull (NewFieldType TypeTiny)"

definition exA :: "exDatum Expression" where "exA = Column (exCol ''a'' 0)"
definition exB :: "exDatum Expression" where "exB = Column (exCol ''b'' 1)"
definition exC :: "exDatum Expression" where "exC = Constant (ExInt 7) (NewFieldType TypeLonglong)"
definition exD :: "exDatum Expression" where "exD = Column (exCol ''d'' 3)"



text \<open>
  The table of the specification's example: columns \<open>a\<close> (NOT NULL, primary key),
  \<open>b\<close> and \<open>c\<close> (NOT NULL) and \<open>d\<close> (nullable); the unique indices \<open>U1\<close> on
  \<open>(a, b)\<close> and \<open>U2\<close> on \<open>(c, d)\<close>, a unique index that is not public yet and an
  index that is not unique; the primary key is the row handle.
\<close>

definition exColumnInfo :: "string \<Rightarrow> 64 word \<Rightarrow> ColumnInfo" where
  "exColumnInfo name flag = \<lparr>ColumnInfo.Name = ci name, FieldType = \<lparr>Tp = TypeLonglong, Flag = flag\<rparr>\<rparr>"

definition exIndex :: "string list \<Rightarrow> bool \<Rightarrow> SchemaState \<Rightarrow> IndexInfo" where
  "exIndex names unique state =
     \<lparr>IndexInfo.Columns = map (\<lambda>n. \<lparr>IndexColumn.Name = ci n\<rparr>) names, Unique = unique, State = state\<rparr>"

definition exTable :: TableInfo where
  "exTable =
     \<lparr>TableInfo.Name = ci ''t'',
      TableInfo.Columns = [exColumnInfo ''a'' 3, exColumnInfo ''b'' 1, exColumnInfo ''c'' 1,
                           exColumnInfo ''d'' 0],
      Indices = [exIndex [''a'', ''b''] True StatePublic, exIndex [''c'', ''d''] True StatePublic,
                 exIndex [''b''] True StateWriteOnly, exIndex [''c''] False StatePublic],
      PKIsHandle = True\<rparr>"

definition exKeyColumn :: "string \<Rightarrow> 64 word \<Rightarrow> nat \<Rightarrow> Column" where
  "exKeyColumn name flag i =
     \<lparr>ColName = ci name, TblName = ci ''t'', RetType = \<lparr>Tp = TypeLonglong, Flag = flag\<rparr>,
      Position = int i\<rparr>"








section \<open>Composer and splitter: proofs\<close>

lemma NewFunction_accepts:
  "accepts funcs funcName (length args) \<Longrightarrow>
   NewFunction funcs ctx funcName retType args =
     (ScalarFunction (NewCIStr funcName) retType args, None)"
  by (auto simp: accepts_def NewFunction_def split: option.splits)

lemma NewFunction_rejects:
  "\<not> accepts funcs funcName (length args) \<Longrightarrow>
   fst (NewFunction funcs ctx funcName retType args) = NilExpr \<and>
   snd (NewFunction funcs ctx funcName retType args) \<noteq> None"
  by (auto simp: accepts_def NewFunction_def split: option.splits)

lemma NewFunction_fails_iff:
  "snd (NewFunction funcs ctx funcName retType args) \<noteq> None
     \<longleftrightarrow> \<not> accepts funcs funcName (length args)"
  by (auto simp: accepts_def NewFunction_def split: option.splits)

lemma ToLower_AndAnd: "ToLower AndAnd = AndAnd"
  by (simp add: ToLower_def AndAnd_def lower_char_def)

lemma ToLower_OrOr: "ToLower OrOr = OrOr"
  by (simp add: ToLower_def OrOr_def lower_char_def)

lemma compose_Nil: "composeConditionWithBinaryOp funcs ctx [] funcName = NilExpr"
  by (simp add: composeConditionWithBinaryOp.simps)

lemma compose_single: "composeConditionWithBinaryOp funcs ctx [x] funcName = x"
  by (simp add: composeConditionWithBinaryOp.simps)

lemma compose_step:
  assumes "2 \<le> length conditions"
  shows "composeConditionWithBinaryOp funcs ctx conditions funcName =
     fst (NewFunction funcs ctx funcName (NewFieldType TypeTiny)
       [composeConditionWithBinaryOp funcs ctx (take (length conditions div 2) conditions) funcName,
        composeConditionWithBinaryOp funcs ctx (drop (length conditions div 2) conditions) funcName])"
proof -
  from assms have "conditions \<noteq> []" "length conditions \<noteq> Suc 0"
    by auto
  then show ?thesis
    by (subst composeConditionWithBinaryOp.simps) simp
qed

lemma compose_many:
  assumes "2 \<le> length conditions" "accepts funcs funcName 2"
  shows "composeConditionWithBinaryOp funcs ctx conditions funcName =
     ScalarFunction (NewCIStr funcName) (NewFieldType TypeTiny)
       [composeConditionWithBinaryOp funcs ctx (take (length conditions div 2) conditions) funcName,
        composeConditionWithBinaryOp funcs ctx (drop (length conditions div 2) conditions) funcName]"
  using assms(2)
  by (subst compose_step [OF assms(1)], subst NewFunction_accepts) (simp_all add: numeral_2_eq_2)

lemma compose_rejected:
  assumes "2 \<le> length conditions" "\<not> accepts funcs funcName 2"
  shows "composeConditionWithBinaryOp funcs ctx conditions funcName = NilExpr"
proof -
  have "length [composeConditionWithBinaryOp funcs ctx (take (length conditions div 2) conditions) funcName,
        composeConditionWithBinaryOp funcs ctx (drop (length conditions div 2) conditions) funcName] = 2"
    by simp
  with assms(2) show ?thesis
    by (subst compose_step [OF assms(1)]) (metis NewFunction_rejects)
qed

lemma split_leaf: "isLeaf funcName e \<Longrightarrow> splitNormalFormItems e funcName = [e]"
  by (cases e) auto

lemma halves:
  assumes "2 \<le> length (xs :: 'a list)"
  shows "take (length xs div 2) xs \<noteq> []" "length (take (length xs div 2) xs) < length xs"
    "drop (length xs div 2) xs \<noteq> []" "length (drop (length xs div 2) xs) < length xs"
    "length (take (length xs div 2) xs) = length xs div 2"
    "length (drop (length xs div 2) xs) = length xs - length xs div 2"
  using assms by auto

lemma split_compose:
  assumes "accepts funcs funcName 2" "ToLower funcName = funcName"
  shows "conditions \<noteq> [] \<Longrightarrow> \<forall>e \<in> set conditions. isLeaf funcName e \<Longrightarrow>
     splitNormalFormItems (composeConditionWithBinaryOp funcs ctx conditions funcName) funcName
       = conditions"
proof (induction "length conditions" arbitrary: conditions rule: less_induct)
  case less
  show ?case
  proof (cases "length conditions = 1")
    case True
    then obtain x where x: "conditions = [x]"
      by (cases conditions) auto
    with less.prems show ?thesis
      by (simp add: compose_single split_leaf)
  next
    case False
    with less.prems(1) have n: "2 \<le> length conditions"
      by (cases conditions) (simp_all add: Suc_le_eq)
    let ?h = "length conditions div 2"
    have ll: "\<forall>e \<in> set (take ?h conditions). isLeaf funcName e"
      using less.prems(2) by (meson in_set_takeD)
    have rl: "\<forall>e \<in> set (drop ?h conditions). isLeaf funcName e"
      using less.prems(2) by (meson in_set_dropD)
    have "splitNormalFormItems (composeConditionWithBinaryOp funcs ctx conditions funcName) funcName
        = take ?h conditions @ drop ?h conditions"
      using less.hyps [OF halves(2) [OF n] halves(1) [OF n] ll]
        less.hyps [OF halves(4) [OF n] halves(3) [OF n] rl] assms(2)
      by (simp add: compose_many [OF n assms(1)] NewCIStr_def)
    then show ?thesis by simp
  qed
qed

lemma ceillog2_half:
  assumes "2 \<le> n"
  shows "ceillog2 n = Suc (max (ceillog2 (n div 2)) (ceillog2 (n - n div 2)))"
proof -
  have e: "n - n div 2 = (n + 1) div 2" by presburger
  have "ceillog2 (n div 2) \<le> ceillog2 (n - n div 2)"
    by (rule ceillog2_mono) presburger
  then have "max (ceillog2 (n div 2)) (ceillog2 (n - n div 2)) = ceillog2 ((n + 1) div 2)"
    by (simp add: e)
  with assms show ?thesis
    by (subst ceillog2_rec) simp
qed

lemma depth_compose:
  assumes "accepts funcs funcName 2"
  shows "conditions \<noteq> [] \<Longrightarrow> \<forall>e \<in> set conditions. depth e \<le> d \<Longrightarrow>
     ceillog2 (length conditions)
       \<le> depth (composeConditionWithBinaryOp funcs ctx conditions funcName) \<and>
     depth (composeConditionWithBinaryOp funcs ctx conditions funcName)
       \<le> ceillog2 (length conditions) + d"
proof (induction "length conditions" arbitrary: conditions rule: less_induct)
  case less
  show ?case
  proof (cases "length conditions = 1")
    case True
    then obtain x where x: "conditions = [x]"
      by (cases conditions) auto
    with less.prems show ?thesis
      by (simp add: compose_single)
  next
    case False
    with less.prems(1) have n: "2 \<le> length conditions"
      by (cases conditions) (simp_all add: Suc_le_eq)
    let ?h = "length conditions div 2"
    have ll: "\<forall>e \<in> set (take ?h conditions). depth e \<le> d"
      using less.prems(2) by (meson in_set_takeD)
    have rl: "\<forall>e \<in> set (drop ?h conditions). depth e \<le> d"
      using less.prems(2) by (meson in_set_dropD)
    define a where "a = depth (composeConditionWithBinaryOp funcs ctx (take ?h conditions) funcName)"
    define b where "b = depth (composeConditionWithBinaryOp funcs ctx (drop ?h conditions) funcName)"
    have ab: "depth (composeConditionWithBinaryOp funcs ctx conditions funcName) = Suc (max a b)"
      by (simp add: compose_many [OF n assms(1)] a_def b_def max.commute)
    have "ceillog2 ?h \<le> a \<and> a \<le> ceillog2 ?h + d"
      using less.hyps [OF halves(2) [OF n] halves(1) [OF n] ll]
      unfolding halves(5) [OF n] a_def .
    moreover have "ceillog2 (length conditions - ?h) \<le> b
        \<and> b \<le> ceillog2 (length conditions - ?h) + d"
      using less.hyps [OF halves(4) [OF n] halves(3) [OF n] rl]
      unfolding halves(6) [OF n] b_def .
    ultimately show ?thesis
      unfolding ab ceillog2_half [OF n] by arith
  qed
qed

lemma accepts_logicFuncs: "accepts logicFuncs AndAnd 2" "accepts logicFuncs OrOr 2"
  by (simp_all add: accepts_def logicFuncs_def AndAnd_def OrOr_def)

lemma rejects_noFuncs: "\<not> accepts noFuncs AndAnd 2" "\<not> accepts noFuncs OrOr 2"
  by (simp_all add: accepts_def noFuncs_def)

text \<open>
  C8. Composing the empty operand list yields the absent expression \<^verbatim>\<open>nil\<close>, and
  composing a one-element list yields that element itself, not wrapped in an operator
  application, for the AND composer and for the OR composer.
\<close>

theorem compose_empty_and_singleton:
  "ComposeCNFCondition funcs ctx [] = NilExpr \<and>
   ComposeDNFCondition funcs ctx [] = NilExpr \<and>
   ComposeCNFCondition funcs ctx [x] = x \<and>
   ComposeDNFCondition funcs ctx [x] = x"
  by (simp add: ComposeCNFCondition_def ComposeDNFCondition_def compose_Nil compose_single)

text \<open>
  C1. For a non-empty list \<open>L\<close> of leaves (expressions that are not applications of
  the operator in question), splitting the tree that the composer builds under the
  same operator gives back \<open>L\<close> in the original order, for AND and for OR. The
  function registry has to accept the operator with two arguments, so that the
  applications can be built.
\<close>

theorem split_compose_roundtrip:
  assumes "L \<noteq> []"
  shows "(accepts funcs AndAnd 2 \<and> (\<forall>e \<in> set L. isLeaf AndAnd e)
            \<longrightarrow> SplitCNFItems (ComposeCNFCondition funcs ctx L) = L) \<and>
         (accepts funcs OrOr 2 \<and> (\<forall>e \<in> set L. isLeaf OrOr e)
            \<longrightarrow> SplitDNFItems (ComposeDNFCondition funcs ctx L) = L)"
  using assms
  by (simp add: SplitCNFItems_def ComposeCNFCondition_def SplitDNFItems_def
      ComposeDNFCondition_def split_compose ToLower_AndAnd ToLower_OrOr)

theorem split_compose_roundtrip_witness:
  "SplitCNFItems (ComposeCNFCondition logicFuncs () [exA, exB, exC, exD]) = [exA, exB, exC, exD] \<and>
   SplitDNFItems (ComposeDNFCondition logicFuncs () [exA, exB, exC, exD]) = [exA, exB, exC, exD]"
  using split_compose_roundtrip [of "[exA, exB, exC, exD]" logicFuncs "()"]
  by (simp add: accepts_logicFuncs exA_def exB_def exC_def exD_def)

text \<open>
  C5 as stated fails: with a registry that does not know the operator, building the
  application fails with an error, and the composer returns the absent expression
  without any error.
\<close>

theorem compose_error_dropped_counterexample:
  "snd (NewFunction noFuncs () AndAnd (NewFieldType TypeTiny) [exA, exB])
     = Some (ErrFunctionNotExists ''and'') \<and>
   ComposeCNFCondition noFuncs () [exA, exB] = NilExpr \<and>
   ComposeCNFCondition noFuncs () [exA, exB] = ComposeCNFCondition noFuncs () []"
proof -
  have "snd (NewFunction noFuncs () AndAnd (NewFieldType TypeTiny) [exA, exB])
      = Some (ErrFunctionNotExists ''and'')"
    by (simp add: NewFunction_def noFuncs_def AndAnd_def)
  moreover have "ComposeCNFCondition noFuncs () [exA, exB] = NilExpr"
    by (simp add: ComposeCNFCondition_def compose_rejected rejects_noFuncs)
  moreover have "ComposeCNFCondition noFuncs () [] = (NilExpr :: exDatum Expression)"
    by (simp add: ComposeCNFCondition_def compose_Nil)
  ultimately show ?thesis by simp
qed

text \<open>
  C5, amended. The composer has no error result. For an operand list of length at
  least 2, if building the function application that joins the two halves fails, the
  error is dropped and the composer returns the absent expression \<^verbatim>\<open>nil\<close>, for AND
  and for OR.
\<close>

theorem compose_failure_returns_nil:
  assumes "2 \<le> length L"
  shows "(snd (NewFunction funcs ctx AndAnd (NewFieldType TypeTiny)
            [composeConditionWithBinaryOp funcs ctx (take (length L div 2) L) AndAnd,
             composeConditionWithBinaryOp funcs ctx (drop (length L div 2) L) AndAnd]) \<noteq> None
          \<longrightarrow> ComposeCNFCondition funcs ctx L = NilExpr) \<and>
         (snd (NewFunction funcs ctx OrOr (NewFieldType TypeTiny)
            [composeConditionWithBinaryOp funcs ctx (take (length L div 2) L) OrOr,
             composeConditionWithBinaryOp funcs ctx (drop (length L div 2) L) OrOr]) \<noteq> None
          \<longrightarrow> ComposeDNFCondition funcs ctx L = NilExpr)"
  using assms
  by (auto simp: ComposeCNFCondition_def ComposeDNFCondition_def NewFunction_fails_iff
      compose_rejected numeral_2_eq_2 simp del: not_None_eq)

theorem compose_failure_returns_nil_witness:
  "ComposeCNFCondition noFuncs () [exA, exB, exC] = NilExpr \<and>
   ComposeDNFCondition noFuncs () [exA, exB, exC] = NilExpr"
  using compose_failure_returns_nil [of "[exA, exB, exC]" noFuncs "()"]
  by (simp add: NewFunction_def noFuncs_def)

text \<open>
  C7. For an operand list of length \<open>n \<ge> 2\<close> the composed tree has depth
  \<open>\<lceil>log2 n\<rceil>\<close> above its operands: when every operand has depth at most \<open>d\<close>, the
  depth of the tree lies between \<open>\<lceil>log2 n\<rceil>\<close> and \<open>\<lceil>log2 n\<rceil> + d\<close>, for AND and for
  OR (the registry accepting the operator with two arguments).
\<close>

theorem compose_depth_log:
  assumes "2 \<le> length L" and "\<forall>e \<in> set L. depth e \<le> d"
  shows "(accepts funcs AndAnd 2 \<longrightarrow>
            ceillog2 (length L) \<le> depth (ComposeCNFCondition funcs ctx L) \<and>
            depth (ComposeCNFCondition funcs ctx L) \<le> ceillog2 (length L) + d) \<and>
         (accepts funcs OrOr 2 \<longrightarrow>
            ceillog2 (length L) \<le> depth (ComposeDNFCondition funcs ctx L) \<and>
            depth (ComposeDNFCondition funcs ctx L) \<le> ceillog2 (length L) + d)"
proof -
  from assms(1) have "L \<noteq> []" by auto
  then show ?thesis
    using assms(2) depth_compose [of funcs _ L d ctx]
    by (simp add: ComposeCNFCondition_def ComposeDNFCondition_def)
qed

theorem compose_depth_log_witness:
  "depth (ComposeCNFCondition logicFuncs () [exA, exB, exC, exD, exA]) = 3 \<and>
   depth (ComposeDNFCondition logicFuncs () [exA, exB, exC, exD, exA]) = 3"
proof -
  have c: "ceillog2 5 = 3"
    by (rule ceillog2_eqI) simp_all
  have len: "length [exA, exB, exC, exD, exA] = 5"
    by simp
  have h1: "2 \<le> length [exA, exB, exC, exD, exA]"
    by simp
  have h2: "\<forall>e \<in> set [exA, exB, exC, exD, exA]. depth e \<le> 0"
    by (simp add: exA_def exB_def exC_def exD_def)
  show ?thesis
    using compose_depth_log [OF h1 h2, of logicFuncs "()"] accepts_logicFuncs
    unfolding len c by simp
qed

section \<open>Typed evaluation: proofs\<close>

text \<open>
  C9. \<^verbatim>\<open>Constant.Equal\<close> on another \<^verbatim>\<open>Constant\<close> is true exactly when the
  comparator of the context returns zero and no error; on any other expression it is
  false. It returns a boolean on every input: there is no error result.
\<close>

theorem constant_equal_iff_compare_zero:
  "(Constant_Equal T c (Constant yValue yRetType) ctx
      \<longleftrightarrow> CompareDatum T (fst c) (StmtCtx ctx) yValue = (0, None)) \<and>
   ((\<forall>v t. b \<noteq> Constant v t) \<longrightarrow> \<not> Constant_Equal T c b ctx)"
proof -
  obtain cv ct where c: "c = (cv, ct)" by (cases c)
  obtain con err where r: "CompareDatum T cv (StmtCtx ctx) yValue = (con, err)"
    by (cases "CompareDatum T cv (StmtCtx ctx) yValue")
  have "Constant_Equal T c (Constant yValue yRetType) ctx
      \<longleftrightarrow> CompareDatum T (fst c) (StmtCtx ctx) yValue = (0, None)"
    by (simp add: c r)
  moreover have "(\<forall>v t. b \<noteq> Constant v t) \<longrightarrow> \<not> Constant_Equal T c b ctx"
    by (cases b) (simp_all add: c)
  ultimately show ?thesis by simp
qed

theorem constant_equal_iff_compare_zero_witness:
  "Constant_Equal exOps (ExInt 1, NewFieldType TypeTiny) (exInt 1) exCtx \<and>
   \<not> Constant_Equal exOps (ExInt 1, NewFieldType TypeTiny) (exInt 0) exCtx \<and>
   \<not> Constant_Equal exOps (ExInt 1, NewFieldType TypeTiny) (exStr ''1'') exCtx \<and>
   \<not> Constant_Equal exOps (ExInt 1, NewFieldType TypeTiny) (Column (exCol ''a'' 0)) exCtx"
  using constant_equal_iff_compare_zero
      [of exOps "(ExInt 1, NewFieldType TypeTiny)" "ExInt 1" "NewFieldType TypeLonglong" exCtx
          "Column (exCol ''a'' 0)"]
    constant_equal_iff_compare_zero
      [of exOps "(ExInt 1, NewFieldType TypeTiny)" "ExInt 0" "NewFieldType TypeLonglong" exCtx NilExpr]
    constant_equal_iff_compare_zero
      [of exOps "(ExInt 1, NewFieldType TypeTiny)" "ExString ''1''" "NewFieldType TypeVarchar" exCtx NilExpr]
  by (simp add: exOps_def exInt_def exStr_def)

lemma EvalBool_step:
  "EvalBool T X (expr # exprList) row ctx =
     (case verdictOf T X row ctx expr of
        Passes \<Rightarrow> EvalBool T X exprList row ctx
      | Stops \<Rightarrow> (False, None)
      | Fails e \<Rightarrow> (False, Some e))"
  by (cases "Eval T X expr row"; cases "ToBool T (fst (Eval T X expr row)) (StmtCtx ctx)")
     (auto simp: verdictOf_def Trace_def split: option.splits)

lemma EvalBool_true_iff:
  "EvalBool T X exprList row ctx = (True, None)
     \<longleftrightarrow> (\<forall>expr \<in> set exprList. verdictOf T X row ctx expr = Passes)"
proof (induction exprList)
  case Nil
  show ?case by simp
next
  case (Cons expr exprList)
  then show ?case
    by (cases "verdictOf T X row ctx expr") (simp_all add: EvalBool_step del: EvalBool.simps)
qed

lemma EvalBool_prefix:
  "\<forall>expr \<in> set pre. verdictOf T X row ctx expr = Passes \<Longrightarrow>
   EvalBool T X (pre @ rest) row ctx = EvalBool T X rest row ctx"
  by (induction pre) (simp_all add: EvalBool_step del: EvalBool.simps)

text \<open>
  C10. \<open>EvalBool\<close> returns \<^verbatim>\<open>(true, nil)\<close> exactly when every expression of the
  list evaluates without error to a non-null value whose boolean conversion succeeds
  and is not zero. Scanning from the left, the first expression that does not pass
  decides: a NULL or a boolean zero gives \<^verbatim>\<open>(false, nil)\<close>, an error of the
  evaluation or of the conversion gives \<^verbatim>\<open>(false, err)\<close>, whatever the remaining
  expressions are.
\<close>

theorem EvalBool_first_decides:
  "(EvalBool T X exprList row ctx = (True, None)
      \<longleftrightarrow> (\<forall>expr \<in> set exprList. verdictOf T X row ctx expr = Passes)) \<and>
   ((\<forall>p \<in> set pre. verdictOf T X row ctx p = Passes) \<and> verdictOf T X row ctx expr = Stops
      \<longrightarrow> EvalBool T X (pre @ expr # rest) row ctx = (False, None)) \<and>
   ((\<forall>p \<in> set pre. verdictOf T X row ctx p = Passes) \<and> verdictOf T X row ctx expr = Fails err
      \<longrightarrow> EvalBool T X (pre @ expr # rest) row ctx = (False, Some err))"
  by (simp add: EvalBool_true_iff EvalBool_prefix EvalBool_step del: EvalBool.simps)

lemma ex_verdicts:
  "verdictOf exOps exEval [] exCtx (exInt 1) = Passes"
  "verdictOf exOps exEval [] exCtx (exInt 2) = Passes"
  "verdictOf exOps exEval [] exCtx (exInt 0) = Stops"
  "verdictOf exOps exEval [] exCtx exNullConst = Stops"
  "verdictOf exOps exEval [] exCtx (exStr ''x'') = Fails (ErrExternal ''bad number'')"
  by (simp_all add: verdictOf_def exOps_def exInt_def exStr_def exNullConst_def)

theorem EvalBool_first_decides_witness:
  "EvalBool exOps exEval [exInt 1, exInt 2] [] exCtx = (True, None) \<and>
   EvalBool exOps exEval [exInt 1, exNullConst, exStr ''x''] [] exCtx = (False, None) \<and>
   EvalBool exOps exEval [exInt 1, exInt 0, exStr ''x''] [] exCtx = (False, None) \<and>
   EvalBool exOps exEval [exInt 1, exStr ''x'', exInt 0] [] exCtx
     = (False, Some (ErrExternal ''bad number''))"
  using EvalBool_first_decides [of exOps exEval "[exInt 1, exInt 2]" "[]" exCtx "[exInt 1]" exNullConst "[exStr ''x'']"]
    EvalBool_first_decides [of exOps exEval "[]" "[]" exCtx "[exInt 1]" "exInt 0" "[exStr ''x'']"]
    EvalBool_first_decides [of exOps exEval "[]" "[]" exCtx "[exInt 1]" "exStr ''x''" "[exInt 0]"
      "ErrExternal ''bad number''"]
  by (simp add: ex_verdicts)

text \<open>
  C3 as stated fails for \<open>EvalString\<close>: on a hexadecimal literal declared with a
  string type the result is the converted text, not what the direct string accessor
  reads.
\<close>

theorem EvalString_converts_counterexample:
  "ToClass exOps (GetType exHexFF) = ClassString \<and>
   Eval exOps exEval exHexFF [] = (ExHex 255, None) \<and>
   \<not> IsNull exOps (ExHex 255) \<and>
   EvalString exOps exEval exHexFF [] () = (''0xFF'', False, None) \<and>
   EvalString exOps exEval exHexFF [] () \<noteq> (GetString exOps (ExHex 255), False, None)"
  by (simp add: EvalString_def exHexFF_def exOps_def NewFieldType_def TypeVarchar_def
      TypeNull_def Trace_def)

text \<open>
  C3, amended. When the declared type is not the null type and the evaluated value is
  non-null and error-free: \<open>EvalInt\<close>, \<open>EvalReal\<close> and \<open>EvalDecimal\<close> return what the
  direct accessor reads when the declared class is the requested one, and the result
  and error of the conversion only when the classes differ; \<open>EvalString\<close> returns the
  result and error of the conversion \<^verbatim>\<open>ToString\<close> whatever the declared class is.
\<close>

theorem Eval_typed_accessor_or_conversion:
  assumes "self \<noteq> NilExpr" and "Tp (GetType self) \<noteq> TypeNull"
    and "Eval T X self row = (val, None)" and "\<not> IsNull T val"
  shows "EvalInt T X self row sc =
           (if ToClass T (GetType self) = ClassInt then (GetInt64 T val, False, None)
            else (fst (ToInt64 T val sc), False, snd (ToInt64 T val sc))) \<and>
         EvalReal T X self row sc =
           (if ToClass T (GetType self) = ClassReal then (GetFloat64 T val, False, None)
            else (fst (ToFloat64 T val sc), False, snd (ToFloat64 T val sc))) \<and>
         EvalDecimal T X self row sc =
           (if ToClass T (GetType self) = ClassDecimal then (GetMysqlDecimal T val, False, None)
            else (fst (ToDecimal T val sc), False, snd (ToDecimal T val sc))) \<and>
         EvalString T X self row sc = (fst (ToString T val), False, snd (ToString T val))"
proof -
  have "EvalInt T X self row sc =
           (if ToClass T (GetType self) = ClassInt then (GetInt64 T val, False, None)
            else (fst (ToInt64 T val sc), False, snd (ToInt64 T val sc)))"
    using assms
    by (cases "ToClass T (GetType self)")
       (simp_all add: EvalInt_def Trace_def split: prod.splits)
  moreover have "EvalReal T X self row sc =
           (if ToClass T (GetType self) = ClassReal then (GetFloat64 T val, False, None)
            else (fst (ToFloat64 T val sc), False, snd (ToFloat64 T val sc)))"
    using assms
    by (cases "ToClass T (GetType self)")
       (simp_all add: EvalReal_def Trace_def split: prod.splits)
  moreover have "EvalDecimal T X self row sc =
           (if ToClass T (GetType self) = ClassDecimal then (GetMysqlDecimal T val, False, None)
            else (fst (ToDecimal T val sc), False, snd (ToDecimal T val sc)))"
    using assms
    by (cases "ToClass T (GetType self)")
       (simp_all add: EvalDecimal_def Trace_def split: prod.splits)
  moreover have "EvalString T X self row sc = (fst (ToString T val), False, snd (ToString T val))"
    using assms by (simp add: EvalString_def Trace_def split: prod.splits)
  ultimately show ?thesis by simp
qed

theorem Eval_typed_accessor_or_conversion_witness:
  "EvalInt exOps exEval (exInt 5) [] () = (5, False, None) \<and>
   EvalInt exOps exEval (exStr ''x'') [] () = (0, False, Some (ErrExternal ''bad number'')) \<and>
   EvalDecimal exOps exEval (exInt 5) [] () = (Some 5, False, None) \<and>
   EvalReal exOps exEval (exInt 5) [] () = (0, False, Some (ErrExternal ''no reals'')) \<and>
   EvalString exOps exEval (exStr ''x'') [] () = (''x'', False, None)"
proof -
  have a: "exInt 5 \<noteq> NilExpr" "Tp (GetType (exInt 5)) \<noteq> TypeNull"
    "Eval exOps exEval (exInt 5) [] = (ExInt 5, None)" "\<not> IsNull exOps (ExInt 5)"
    by (simp_all add: exInt_def exOps_def NewFieldType_def TypeLonglong_def TypeNull_def)
  have b: "exStr ''x'' \<noteq> NilExpr" "Tp (GetType (exStr ''x'')) \<noteq> TypeNull"
    "Eval exOps exEval (exStr ''x'') [] = (ExString ''x'', None)" "\<not> IsNull exOps (ExString ''x'')"
    by (simp_all add: exStr_def exOps_def NewFieldType_def TypeVarchar_def TypeNull_def)
  show ?thesis
    using Eval_typed_accessor_or_conversion [OF a, of "()"]
      Eval_typed_accessor_or_conversion [OF b, of "()"]
    by (simp add: exInt_def exStr_def exOps_def NewFieldType_def TypeLonglong_def TypeVarchar_def)
qed

section \<open>Schema derivation: proofs\<close>

lemma ColumnInfos2Columns_nth:
  "\<forall>(j, c) \<in> set (enumerate 0 colInfos).
     j < length (ColumnInfos2Columns tblName colInfos) \<and>
     ColumnInfos2Columns tblName colInfos ! j = newCol tblName j c"
  by (auto simp: ColumnInfos2Columns_def in_set_enumerate_eq nth_enumerate_eq)

lemma findKeyColumn_find:
  assumes "\<forall>(j, c) \<in> set (enumerate i rest). j < length cols \<and> cols ! j = newCol tblName j c"
  shows "findKeyColumn cols idxCol rest i =
     (case List.find (\<lambda>(j, col). CIStr_L (IndexColumn.Name idxCol) = CIStr_L (ColumnInfo.Name col))
             (enumerate i rest) of
        None \<Rightarrow> None
      | Some (j, col) \<Rightarrow>
          if HasNotNullFlag (Flag (FieldType col)) then Some (newCol tblName j col) else None)"
  using assms
proof (induction rest arbitrary: i)
  case Nil
  show ?case by simp
next
  case (Cons col rest)
  from Cons.prems have here: "i < length cols" "cols ! i = newCol tblName i col"
    by simp_all
  from Cons.prems have "\<forall>(j, c) \<in> set (enumerate (Suc i) rest).
      j < length cols \<and> cols ! j = newCol tblName j c"
    by simp
  from Cons.IH [OF this] here show ?case
    by simp
qed

lemma findKeyColumn_resolve:
  "findKeyColumn (ColumnInfos2Columns (TableInfo.Name tbl) (TableInfo.Columns tbl)) idxCol
     (TableInfo.Columns tbl) 0 = keyColumnOf tbl idxCol"
  unfolding keyColumnOf_def resolve_def
  by (rule findKeyColumn_find) (rule ColumnInfos2Columns_nth)

lemma keyColumnOf_None_iff:
  "keyColumnOf tbl idxCol = None \<longleftrightarrow>
     \<not> (case resolve tbl idxCol of
          None \<Rightarrow> False
        | Some (i, col) \<Rightarrow> HasNotNullFlag (Flag (FieldType col)))"
  by (auto simp: keyColumnOf_def split: option.splits)

lemma keyColumnOf_Some:
  "keyColumnOf tbl idxCol = Some c \<Longrightarrow>
   map_option (\<lambda>(i, col). newCol (TableInfo.Name tbl) i col) (resolve tbl idxCol) = Some c"
  by (auto simp: keyColumnOf_def split: option.splits if_splits)

lemma buildKey_spec:
  fixes tbl :: TableInfo
  defines "cols \<equiv> ColumnInfos2Columns (TableInfo.Name tbl) (TableInfo.Columns tbl)"
  defines "f \<equiv> (\<lambda>idxCol. map_option (\<lambda>(i, col). newCol (TableInfo.Name tbl) i col)
                      (resolve tbl idxCol))"
  shows "buildKey cols (TableInfo.Columns tbl) idxCols newKey =
     (if \<forall>idxCol \<in> set idxCols. keyColumnOf tbl idxCol \<noteq> None
      then (True, newKey @ List.map_filter f idxCols)
      else (False, snd (buildKey cols (TableInfo.Columns tbl) idxCols newKey)))"
proof (induction idxCols arbitrary: newKey)
  case Nil
  show ?case by simp
next
  case (Cons idxCol idxCols)
  show ?case
  proof (cases "keyColumnOf tbl idxCol")
    case None
    then show ?thesis
      by (simp add: cols_def findKeyColumn_resolve)
  next
    case (Some c)
    have step: "buildKey cols (TableInfo.Columns tbl) (idxCol # idxCols) newKey
        = buildKey cols (TableInfo.Columns tbl) idxCols (newKey @ [c])"
      by (simp add: cols_def findKeyColumn_resolve Some)
    have "f idxCol = Some c"
      unfolding f_def by (rule keyColumnOf_Some [OF Some])
    then have mf: "List.map_filter f (idxCol # idxCols) = c # List.map_filter f idxCols"
      by simp
    have all: "(\<forall>x \<in> set (idxCol # idxCols). keyColumnOf tbl x \<noteq> None)
        \<longleftrightarrow> (\<forall>x \<in> set idxCols. keyColumnOf tbl x \<noteq> None)"
      using Some by simp
    show ?thesis
      unfolding step mf all by (subst Cons.IH) simp
  qed
qed

lemma isKeyIndex_alt:
  "isKeyIndex tbl idx \<longleftrightarrow>
     Unique idx \<and> State idx = StatePublic \<and>
     (\<forall>idxCol \<in> set (IndexInfo.Columns idx). keyColumnOf tbl idxCol \<noteq> None)"
  by (simp add: isKeyIndex_def keyColumnOf_None_iff)

lemma indexKeys_spec:
  fixes tbl :: TableInfo
  defines "cols \<equiv> ColumnInfos2Columns (TableInfo.Name tbl) (TableInfo.Columns tbl)"
  shows "indexKeys cols (TableInfo.Columns tbl) idxs keys =
     keys @ map (keyOfIndex tbl) (filter (isKeyIndex tbl) idxs)"
proof (induction idxs arbitrary: keys)
  case Nil
  show ?case by simp
next
  case (Cons idx idxs)
  show ?case
  proof (cases "isKeyIndex tbl idx")
    case True
    then have "buildKey cols (TableInfo.Columns tbl) (IndexInfo.Columns idx) []
        = (True, keyOfIndex tbl idx)"
      unfolding cols_def by (subst buildKey_spec) (simp add: isKeyIndex_alt keyOfIndex_def)
    with True show ?thesis
      by (simp add: Cons.IH isKeyIndex_alt)
  next
    case False
    show ?thesis
    proof (cases "Unique idx \<and> State idx = StatePublic")
      case True
      with False have "\<not> (\<forall>idxCol \<in> set (IndexInfo.Columns idx). keyColumnOf tbl idxCol \<noteq> None)"
        by (simp add: isKeyIndex_alt)
      then have "\<not> fst (buildKey cols (TableInfo.Columns tbl) (IndexInfo.Columns idx) [])"
        unfolding cols_def by (subst buildKey_spec) simp
      then obtain newKey where
        "buildKey cols (TableInfo.Columns tbl) (IndexInfo.Columns idx) [] = (False, newKey)"
        by (cases "buildKey cols (TableInfo.Columns tbl) (IndexInfo.Columns idx) []") simp
      with True False show ?thesis
        by (simp add: Cons.IH)
    next
      case False
      then have "\<not> isKeyIndex tbl idx"
        by (auto simp: isKeyIndex_alt)
      with False show ?thesis
        by (auto simp: Cons.IH)
    qed
  qed
qed

lemma handleKey_find:
  assumes "\<forall>(j, c) \<in> set (enumerate i rest). j < length cols \<and> cols ! j = newCol tblName j c"
  shows "handleKey cols rest i keys =
     keys @ (case List.find (\<lambda>(j, col). HasPriKeyFlag (Flag (FieldType col))) (enumerate i rest) of
               None \<Rightarrow> []
             | Some (j, col) \<Rightarrow> [[newCol tblName j col]])"
  using assms
proof (induction rest arbitrary: i)
  case Nil
  show ?case by simp
next
  case (Cons col rest)
  from Cons.prems have here: "i < length cols" "cols ! i = newCol tblName i col"
    by simp_all
  from Cons.prems have "\<forall>(j, c) \<in> set (enumerate (Suc i) rest).
      j < length cols \<and> cols ! j = newCol tblName j c"
    by simp
  from Cons.IH [OF this] here show ?case
    by simp
qed

text \<open>
  C2. The unique keys of the derived schema are, in the order of the indices, the
  column groups of exactly those indices that are unique and public and whose columns
  all resolve by name to a table column carrying the NOT NULL flag; after them, if the
  primary key is the row handle and some column carries the primary-key flag, comes
  the singleton key of the first such column, whatever the indices gave.
\<close>

theorem TableInfo2Schema_unique_keys:
  "UniqueKeys (TableInfo2Schema tbl) =
     map (keyOfIndex tbl) (filter (isKeyIndex tbl) (Indices tbl)) @ handleKeys tbl"
proof -
  have "handleKey (ColumnInfos2Columns (TableInfo.Name tbl) (TableInfo.Columns tbl))
          (TableInfo.Columns tbl) 0 keys
      = keys @ (case List.find (\<lambda>(j, col). HasPriKeyFlag (Flag (FieldType col)))
                     (enumerate 0 (TableInfo.Columns tbl)) of
                  None \<Rightarrow> []
                | Some (j, col) \<Rightarrow> [[newCol (TableInfo.Name tbl) j col]])" for keys
    by (rule handleKey_find) (rule ColumnInfos2Columns_nth)
  then show ?thesis
    by (simp add: TableInfo2Schema_def Let_def indexKeys_spec handleKeys_def)
qed

theorem TableInfo2Schema_unique_keys_witness:
  "UniqueKeys (TableInfo2Schema exTable) =
     [[exKeyColumn ''a'' 3 0, exKeyColumn ''b'' 1 1], [exKeyColumn ''a'' 3 0]]"
  using TableInfo2Schema_unique_keys [of exTable]
  by (simp add: exTable_def exIndex_def exColumnInfo_def exKeyColumn_def isKeyIndex_def
      keyOfIndex_def handleKeys_def resolve_def newCol_def ci_def
      HasNotNullFlag_def HasPriKeyFlag_def NotNullFlag_def PriKeyFlag_def)

section \<open>Null-substitution folder: proofs\<close>























end
